theory Spec2Isabelle
  imports Complex_Main
begin

section \<open>Python values, exceptions and the outside world\<close>

text \<open>
  The engine of \<^verbatim>\<open>harpy_ai_otp.py\<close> talks to three things outside itself: an HTTP
  session, the module logger and the file system. Each becomes an explicit value.
  A character is a code point below 256 (the Latin-1 range), and a string a list of
  them. A Python float is modelled by the real number it denotes, an
  int by \<open>int\<close>; the attempt record's \<^verbatim>\<open>time\<close> entry holds either (the sentinel records
  store the int \<^verbatim>\<open>0\<close>).
\<close>

datatype pynum = PyInt int | PyFloat real

text \<open>
  An exception object is its method resolution order (its own class first) and its message.
  An \<^verbatim>\<open>except C\<close> clause catches it when \<open>C\<close> occurs in that order. The classes are those
  the three source files name, those of the \<^verbatim>\<open>requests\<close> library's hierarchy below
  \<^verbatim>\<open>RequestException\<close>, and \<open>OtherClass\<close> for any further one.
\<close>

datatype pyclass =
    BaseException | Exception | OSError | ValueError | NameError | KeyboardInterrupt
  | FileNotFoundError | PermissionError | JSONDecodeError | NotFittedError
  | RequestException | ConnectionError | ProxyError | SSLError | Timeout
  | ConnectTimeout | ReadTimeout | OtherClass string

record exn =
  exn_mro :: "pyclass list"
  exn_msg :: string

definition isinstance :: "exn \<Rightarrow> pyclass \<Rightarrow> bool" where
  "isinstance e c = (c \<in> set (exn_mro e))"

text \<open>
  The \<^verbatim>\<open>requests.exceptions\<close> classes, as that library declares them:
  \<^verbatim>\<open>ConnectionError(RequestException)\<close>, \<^verbatim>\<open>ProxyError(ConnectionError)\<close>,
  \<^verbatim>\<open>Timeout(RequestException)\<close>, \<^verbatim>\<open>ConnectTimeout(ConnectionError, Timeout)\<close>,
  \<^verbatim>\<open>ReadTimeout(Timeout)\<close>, and \<^verbatim>\<open>RequestException(IOError)\<close>.
\<close>

definition mk_RequestException :: "string \<Rightarrow> exn" where
  "mk_RequestException m =
     \<lparr>exn_mro = [RequestException, OSError, Exception, BaseException], exn_msg = m\<rparr>"

definition mk_ConnectionError :: "string \<Rightarrow> exn" where
  "mk_ConnectionError m =
     \<lparr>exn_mro = [ConnectionError, RequestException, OSError, Exception, BaseException],
      exn_msg = m\<rparr>"

definition mk_ProxyError :: "string \<Rightarrow> exn" where
  "mk_ProxyError m =
     \<lparr>exn_mro = [ProxyError, ConnectionError, RequestException, OSError, Exception,
                 BaseException],
      exn_msg = m\<rparr>"

definition mk_ReadTimeout :: "string \<Rightarrow> exn" where
  "mk_ReadTimeout m =
     \<lparr>exn_mro = [ReadTimeout, Timeout, RequestException, OSError, Exception, BaseException],
      exn_msg = m\<rparr>"

definition mk_ConnectTimeout :: "string \<Rightarrow> exn" where
  "mk_ConnectTimeout m =
     \<lparr>exn_mro = [ConnectTimeout, ConnectionError, Timeout, RequestException, OSError,
                 Exception, BaseException],
      exn_msg = m\<rparr>"

definition mk_KeyboardInterrupt :: exn where
  "mk_KeyboardInterrupt = \<lparr>exn_mro = [KeyboardInterrupt, BaseException], exn_msg = []\<rparr>"

text \<open>A call either returns a value or raises.\<close>

datatype 'a outcome = Returns 'a | Raises exn

text \<open>The results of calls made in order, up to the first that raises.\<close>

fun collect :: "'a outcome list \<Rightarrow> 'a list outcome" where
  "collect [] = Returns []"
| "collect (Raises e # rest) = Raises e"
| "collect (Returns a # rest) =
     (case collect rest of Raises e \<Rightarrow> Raises e | Returns as \<Rightarrow> Returns (a # as))"

text \<open>
  The module logger. Only records of level WARNING and above are modelled: they pass the
  logger's level whether \<^verbatim>\<open>debug\<close> is set or not, and no INFO record influences the
  control flow or the engine's state.
\<close>

datatype level = WARNING | ERROR | CRITICAL

text \<open>
  One \<^verbatim>\<open>session.post\<close> call: the URL, the JSON payload, the \<^verbatim>\<open>proxies\<close> argument
  (\<open>None\<close> routes directly) and the timeout in seconds.
\<close>

record request =
  req_url :: string
  req_json :: "(string \<times> string) list"
  req_proxies :: "(string \<times> string) list option"
  req_timeout :: "nat option"

text \<open>
  What the call gives back: a response (status code, body, and the wall-clock time the
  caller measures around the call) or an exception. A transport decides it from the
  requests it has seen so far and the present one.
\<close>

datatype post_result = Response int string real | Fails exn

type_synonym transport = "request list \<Rightarrow> request \<Rightarrow> post_result"

record io =
  sent :: "request list"
  log :: "(level \<times> string) list"

definition log_to :: "level \<Rightarrow> string \<Rightarrow> io \<Rightarrow> io" where
  "log_to lv m s = s\<lparr>log := log s @ [(lv, m)]\<rparr>"

subsection \<open>String helpers\<close>

text \<open>
  \<^verbatim>\<open>str.isspace\<close> below 256: tab to carriage return, the four separators, the space,
  next line and the no-break space.
\<close>

definition is_space :: "char \<Rightarrow> bool" where
  "is_space c =
     (let n = of_char c :: nat
      in (9 \<le> n \<and> n \<le> 13) \<or> (28 \<le> n \<and> n \<le> 32) \<or> n = 133 \<or> n = 160)"

definition strip :: "string \<Rightarrow> string" where
  "strip s = rev (dropWhile is_space (rev (dropWhile is_space s)))"

text \<open>
  \<^verbatim>\<open>str.lower\<close> below 256: the letters A to Z, and the accented capitals from 192 to
  222 but for the multiplication sign, move up by 32.
\<close>

definition lower_char :: "char \<Rightarrow> char" where
  "lower_char c =
     (let n = of_char c :: nat
      in if (65 \<le> n \<and> n \<le> 90) \<or> (192 \<le> n \<and> n \<le> 222 \<and> n \<noteq> 215)
         then char_of (n + 32) else c)"

definition lower :: "string \<Rightarrow> string" where
  "lower s = map lower_char s"

fun starts_with :: "string \<Rightarrow> string \<Rightarrow> bool" where
  "starts_with s [] = True"
| "starts_with [] (p # ps) = False"
| "starts_with (c # cs) (p # ps) = (c = p \<and> starts_with cs ps)"

text \<open>\<^verbatim>\<open>needle in hay\<close>\<close>

fun contains :: "string \<Rightarrow> string \<Rightarrow> bool" where
  "contains [] needle = (needle = [])"
| "contains (c # cs) needle = (starts_with (c # cs) needle \<or> contains cs needle)"

definition squote :: "string \<Rightarrow> string" where
  "squote m = [CHR 0x27] @ m @ [CHR 0x27]"

text \<open>
  \<^verbatim>\<open>str.isdigit\<close> below 256: the digits 0 to 9 and the superscripts two, three and one
  (178, 179, 185). \<^verbatim>\<open>int\<close> of a one-character string reads the digits 0 to 9 only, and
  raises \<^verbatim>\<open>ValueError\<close> on any other character, the superscripts included.
\<close>

definition is_digit :: "char \<Rightarrow> bool" where
  "is_digit c =
     (let n = of_char c :: nat in (48 \<le> n \<and> n \<le> 57) \<or> n = 178 \<or> n = 179 \<or> n = 185)"

definition mk_ValueError :: "string \<Rightarrow> exn" where
  "mk_ValueError m = \<lparr>exn_mro = [ValueError, Exception, BaseException], exn_msg = m\<rparr>"

definition int_of_char :: "char \<Rightarrow> int outcome" where
  "int_of_char c =
     (let n = of_char c :: nat
      in if 48 \<le> n \<and> n \<le> 57 then Returns (int n - 48)
         else Raises (mk_ValueError (''invalid literal for int() with base 10: '' @ squote [c])))"

definition rstrip_slash :: "string \<Rightarrow> string" where
  "rstrip_slash s = rev (dropWhile (\<lambda>c. c = CHR ''/'') (rev s))"

definition digit_char :: "nat \<Rightarrow> char" where
  "digit_char d = ''0123456789'' ! d"

fun str_of_nat :: "nat \<Rightarrow> string" where
  "str_of_nat n =
     (if n < 10 then [digit_char n] else str_of_nat (n div 10) @ [digit_char (n mod 10)])"

declare str_of_nat.simps [simp del]

text \<open>\<^verbatim>\<open>f"{i:0{digits}d}"\<close> for \<open>i \<ge> 0\<close>: pad with zeros on the left up to the width, never cut.\<close>

definition format_otp :: "nat \<Rightarrow> nat \<Rightarrow> string" where
  "format_otp digits i =
     replicate (digits - length (str_of_nat i)) (CHR ''0'') @ str_of_nat i"

section \<open>The engine: \<^verbatim>\<open>HarpyAIOTP\<close>\<close>

record attempt =
  rec_otp :: string
  rec_status :: int
  rec_text :: string
  rec_time :: pynum

record ProxyMonitor =
  proxy_url :: string
  force :: bool
  check_interval :: int
  running :: bool
  alive :: bool

datatype label = Fail | Success

type_synonym features = "pynum list"

text \<open>
  The random forest is deterministic (\<^verbatim>\<open>random_state=42\<close>): a fitted classifier is
  determined by the data it was fitted on.
\<close>

datatype classifier = Unfitted | Fitted "features list" "nat list"

record engine =
  base_url :: string
  user_id :: string
  otp_verify_path :: string
  debug :: bool
  history :: "attempt list"
  state_file :: string
  proxy_monitor :: "ProxyMonitor option"
  proxies :: "(string \<times> string) list option"
  encoder_classes :: "label list option"
  classifier :: classifier

definition init :: "string \<Rightarrow> string \<Rightarrow> string \<Rightarrow> string option \<Rightarrow> bool
    \<Rightarrow> ProxyMonitor option \<Rightarrow> engine" where
  "init url uid path burp_proxy dbg mon =
     \<lparr>base_url = rstrip_slash url,
      user_id = uid,
      otp_verify_path = path,
      debug = dbg,
      history = [],
      state_file = ''ai_otp_state_'' @ uid @ ''.json'',
      proxy_monitor = mon,
      proxies = (case burp_proxy of
                   None \<Rightarrow> None
                 | Some p \<Rightarrow> if p = [] then None else Some [(''http'', p), (''https'', p)]),
      encoder_classes = None,
      classifier = Unfitted\<rparr>"

text \<open>\<^verbatim>\<open>self._log\<close>: only when \<^verbatim>\<open>debug\<close> is set.\<close>

definition self_log :: "engine \<Rightarrow> level \<Rightarrow> string \<Rightarrow> io \<Rightarrow> io" where
  "self_log self lv m s = (if debug self then log_to lv m s else s)"

definition sentinel :: "string \<Rightarrow> int \<Rightarrow> string \<Rightarrow> attempt" where
  "sentinel code st tx = \<lparr>rec_otp = code, rec_status = st, rec_text = tx, rec_time = PyInt 0\<rparr>"

definition verify_request :: "engine \<Rightarrow> string \<Rightarrow> request" where
  "verify_request self code =
     \<lparr>req_url = base_url self @ otp_verify_path self,
      req_json = [(''user_id'', user_id self), (''otp'', code)],
      req_proxies = (case proxy_monitor self of
                       None \<Rightarrow> proxies self
                     | Some m \<Rightarrow> if \<not> alive m then None else proxies self),
      req_timeout = Some 10\<rparr>"

text \<open>
  \<^verbatim>\<open>verify\<close>. The session is the transport. The record is appended inside the \<^verbatim>\<open>try\<close>
  block, after the response has arrived; the four \<^verbatim>\<open>except\<close> clauses are tried in the
  order of the source, and an exception none of them catches leaves the method.
\<close>

definition verify :: "transport \<Rightarrow> engine \<Rightarrow> string \<Rightarrow> io \<Rightarrow> attempt outcome \<times> engine \<times> io" where
  "verify post self code s =
     (let rq = verify_request self code;
          s1 = s\<lparr>sent := sent s @ [rq]\<rparr>
      in case post (sent s) rq of
           Response status_code body elapsed_time \<Rightarrow>
             (let record = \<lparr>rec_otp = code, rec_status = status_code,
                             rec_text = lower (strip body), rec_time = PyFloat elapsed_time\<rparr>
              in (Returns record, self\<lparr>history := history self @ [record]\<rparr>, s1))
         | Fails e \<Rightarrow>
             if isinstance e ProxyError then
               (Returns (sentinel code 999 ''proxy_error''), self,
                log_to ERROR (''Proxy error during request for OTP '' @ code @ '': '' @ exn_msg e) s1)
             else if isinstance e ConnectionError then
               (Returns (sentinel code 998 ''connection_error''), self,
                log_to ERROR (''Connection error during request for OTP '' @ code @ '': '' @ exn_msg e) s1)
             else if isinstance e Timeout then
               (Returns (sentinel code 997 ''timeout_error''), self,
                log_to ERROR (''Timeout error during request for OTP '' @ code @ '': '' @ exn_msg e) s1)
             else if isinstance e RequestException then
               (Returns (sentinel code 996 ''request_error''), self,
                log_to ERROR (''An unexpected request error occurred for OTP '' @ code @ '': '' @ exn_msg e) s1)
             else (Raises e, self, s1))"

text \<open>The success predicate of the attack loops and of the training labels.\<close>

definition is_hit :: "attempt \<Rightarrow> bool" where
  "is_hit r = (contains (rec_text r) ''success'' \<or> rec_status r = 200)"

subsection \<open>The ranking model\<close>

text \<open>
  The \<^verbatim>\<open>scikit-learn\<close> estimator is a parameter of the model: whether \<^verbatim>\<open>fit\<close> raises on
  given training data, and what \<^verbatim>\<open>predict_proba\<close> of the classifier fitted on that data
  returns for one feature row. A \<^verbatim>\<open>fit\<close> that raises is taken to leave the classifier as
  it was before the call.
\<close>

record sklearn =
  fit_raises :: "features list \<Rightarrow> nat list \<Rightarrow> exn option"
  predict_proba :: "features list \<Rightarrow> nat list \<Rightarrow> features \<Rightarrow> real list outcome"

text \<open>
  \<^verbatim>\<open>int(otp[0]) if otp and otp[0].isdigit() else 0\<close>: it raises when the first character
  passes \<^verbatim>\<open>isdigit\<close> and \<^verbatim>\<open>int\<close> rejects it.
\<close>

definition first_digit :: "string \<Rightarrow> int outcome" where
  "first_digit code =
     (case code of
        [] \<Rightarrow> Returns 0
      | c # cs \<Rightarrow> if is_digit c then int_of_char c else Returns 0)"

definition record_features :: "attempt \<Rightarrow> features outcome" where
  "record_features r =
     (case first_digit (rec_otp r) of
        Raises e \<Rightarrow> Raises e
      | Returns d \<Rightarrow>
          Returns [PyInt (int (length (rec_otp r))), PyInt d, PyInt (rec_status r), rec_time r])"

definition record_label :: "attempt \<Rightarrow> label" where
  "record_label r = (if contains (rec_text r) ''success'' \<or> rec_status r = 200 then Success else Fail)"

text \<open>
  \<^verbatim>\<open>LabelEncoder.fit_transform\<close>: the classes are the sorted distinct labels
  (\<^verbatim>\<open>"fail" < "success"\<close>), and each label is encoded by its position among them.
\<close>

definition fit_classes :: "label list \<Rightarrow> label list" where
  "fit_classes y = filter (\<lambda>l. l \<in> set y) [Fail, Success]"

fun index_of :: "'a list \<Rightarrow> 'a \<Rightarrow> nat" where
  "index_of [] a = 0"
| "index_of (x # xs) a = (if x = a then 0 else Suc (index_of xs a))"

text \<open>
  \<^verbatim>\<open>train_model\<close>. The rows and labels are built before the \<^verbatim>\<open>try\<close>, so an exception
  raised there leaves the method; those raised by \<^verbatim>\<open>fit\<close> are caught.
\<close>

definition train_model :: "sklearn \<Rightarrow> engine \<Rightarrow> io \<Rightarrow> unit outcome \<times> engine \<times> io" where
  "train_model sk self s =
     (if history self = [] then
        (Returns (), self, self_log self WARNING ''No data to train on. History is empty.'' s)
      else
        (case collect (map record_features (history self)) of
           Raises e \<Rightarrow> (Raises e, self, s)
         | Returns X \<Rightarrow>
             (let y = map record_label (history self);
                  classes = fit_classes y;
                  y_encoded = map (index_of classes) y;
                  self1 = self\<lparr>encoder_classes := Some classes\<rparr>
              in case fit_raises sk X y_encoded of
                   None \<Rightarrow> (Returns (), self1\<lparr>classifier := Fitted X y_encoded\<rparr>, s)
                 | Some e \<Rightarrow>
                     if isinstance e ValueError then
                       (Returns (), self1,
                        log_to ERROR (''Error training model: '' @ exn_msg e
                          @ ''. This might happen if '' @ squote ''success'' @ '' or ''
                          @ squote ''fail'' @ '' labels are missing.'') s)
                     else if isinstance e Exception then
                       (Returns (), self1,
                        log_to ERROR (''An unexpected error occurred during model training: ''
                          @ exn_msg e) s)
                     else (Raises e, self1, s))))"

definition mk_NotFittedError :: exn where
  "mk_NotFittedError =
     \<lparr>exn_mro = [NotFittedError, ValueError, OtherClass ''AttributeError'', Exception,
                 BaseException],
      exn_msg = ''This RandomForestClassifier instance is not fitted yet.''\<rparr>"

definition mk_AttributeError :: "string \<Rightarrow> exn" where
  "mk_AttributeError m =
     \<lparr>exn_mro = [OtherClass ''AttributeError'', Exception, BaseException], exn_msg = m\<rparr>"

definition mk_IndexError :: "string \<Rightarrow> exn" where
  "mk_IndexError m =
     \<lparr>exn_mro = [OtherClass ''IndexError'', OtherClass ''LookupError'', Exception,
                 BaseException],
      exn_msg = m\<rparr>"

text \<open>The \<^verbatim>\<open>except Exception\<close> clause of \<^verbatim>\<open>predict_likelihood\<close>.\<close>

definition predict_failed :: "string \<Rightarrow> exn \<Rightarrow> io \<Rightarrow> real outcome \<times> io" where
  "predict_failed code e s =
     (if isinstance e Exception then
        (Returns 0,
         log_to ERROR (''Error predicting likelihood for OTP '' @ code @ '': '' @ exn_msg e
           @ ''. Returning 0.0.'') s)
      else (Raises e, s))"

text \<open>
  \<^verbatim>\<open>predict_likelihood\<close>. The feature row is built before the \<^verbatim>\<open>try\<close>; everything
  after it is inside.
\<close>

definition predict_likelihood :: "sklearn \<Rightarrow> engine \<Rightarrow> string \<Rightarrow> io \<Rightarrow> real outcome \<times> io" where
  "predict_likelihood sk self code s =
     (case first_digit code of
        Raises e \<Rightarrow> (Raises e, s)
      | Returns d \<Rightarrow>
          (let features = [PyInt (int (length code)), PyInt d, PyInt 200, PyFloat (1 / 10)]
           in case classifier self of
                Unfitted \<Rightarrow> predict_failed code mk_NotFittedError s
              | Fitted X y_encoded \<Rightarrow>
                  (case predict_proba sk X y_encoded features of
                     Raises e \<Rightarrow> predict_failed code e s
                   | Returns proba \<Rightarrow>
                       (case encoder_classes self of
                          None \<Rightarrow>
                            predict_failed code
                              (mk_AttributeError
                                 (squote ''LabelEncoder'' @ '' object has no attribute ''
                                  @ squote ''classes_'')) s
                        | Some classes \<Rightarrow>
                            if Success \<in> set classes then
                              (let success_idx = index_of classes Success
                               in if success_idx < length proba then
                                    (Returns (proba ! success_idx), s)
                                  else
                                    predict_failed code
                                      (mk_IndexError ''index out of bounds'') s)
                            else
                              (Returns 0,
                               self_log self WARNING (squote ''success''
                                 @ '' label not found in encoder classes. Returning 0.0.'')
                                 s)))))"

subsection \<open>The attack loops\<close>

text \<open>
  The names bound at module level in \<^verbatim>\<open>harpy_ai_otp.py\<close>: its imports (lines 1 to 11),
  \<^verbatim>\<open>logger\<close> and the class. Reading any other global name raises \<^verbatim>\<open>NameError\<close>.
\<close>

definition module_globals :: "string list" where
  "module_globals =
     [''requests'', ''random'', ''time'', ''json'', ''statistics'', ''np'',
      ''RandomForestClassifier'', ''LabelEncoder'', ''plt'', ''logging'', ''List'', ''Dict'',
      ''Any'', ''Optional'', ''logger'', ''HarpyAIOTP'']"

definition mk_NameError :: "string \<Rightarrow> exn" where
  "mk_NameError name =
     \<lparr>exn_mro = [NameError, Exception, BaseException],
      exn_msg = ''name '' @ squote name @ '' is not defined''\<rparr>"

definition read_global :: "string \<Rightarrow> unit outcome" where
  "read_global name =
     (if name \<in> set module_globals then Returns () else Raises (mk_NameError name))"

text \<open>
  The hit branch of both loops: the argument of \<^verbatim>\<open>logger.info\<close> reads \<^verbatim>\<open>Fore\<close> and then
  \<^verbatim>\<open>Style\<close> before anything is logged; \<^verbatim>\<open>break\<close> follows.
\<close>

definition announce_hit :: "unit outcome" where
  "announce_hit =
     (case read_global ''Fore'' of
        Raises e \<Rightarrow> Raises e
      | Returns u \<Rightarrow> read_global ''Style'')"

text \<open>
  \<^verbatim>\<open>hasattr(self.classifier, 'predict_proba')\<close>: \<^verbatim>\<open>predict_proba\<close> is a method of the
  class \<^verbatim>\<open>RandomForestClassifier\<close>, so the attribute is found on every instance, fitted or
  not.
\<close>

definition hasattr_predict_proba :: "classifier \<Rightarrow> bool" where
  "hasattr_predict_proba c = True"

text \<open>The sort key of every candidate, computed in order; each call may log.\<close>

fun score_all :: "sklearn \<Rightarrow> engine \<Rightarrow> string list \<Rightarrow> io \<Rightarrow> real list outcome \<times> io" where
  "score_all sk self [] s = (Returns [], s)"
| "score_all sk self (c # cs) s =
     (case predict_likelihood sk self c s of
        (Raises e, s1) \<Rightarrow> (Raises e, s1)
      | (Returns p, s1) \<Rightarrow>
          (case score_all sk self cs s1 of
             (Raises e, s2) \<Rightarrow> (Raises e, s2)
           | (Returns ps, s2) \<Rightarrow> (Returns (p # ps), s2)))"

text \<open>\<^verbatim>\<open>sorted(candidates, key=..., reverse=True)\<close>: descending by key, stable.\<close>

definition ranked_by :: "real list \<Rightarrow> string list \<Rightarrow> string list" where
  "ranked_by keys candidates = map snd (sort_key (\<lambda>kc. - fst kc) (zip keys candidates))"

fun ai_loop :: "transport \<Rightarrow> engine \<Rightarrow> int \<Rightarrow> int \<Rightarrow> string list \<Rightarrow> io
    \<Rightarrow> unit outcome \<times> engine \<times> io" where
  "ai_loop post self max_attempts attempts [] s = (Returns (), self, s)"
| "ai_loop post self max_attempts attempts (code # rest) s =
     (case verify post self code s of
        (Raises e, self1, s1) \<Rightarrow> (Raises e, self1, s1)
      | (Returns r, self1, s1) \<Rightarrow>
          if contains (rec_text r) ''success'' \<or> rec_status r = 200 then
            (announce_hit, self1, s1)
          else if attempts + 1 \<ge> max_attempts then (Returns (), self1, s1)
          else ai_loop post self1 max_attempts (attempts + 1) rest s1)"

definition ai_attack :: "sklearn \<Rightarrow> transport \<Rightarrow> engine \<Rightarrow> int \<Rightarrow> nat \<Rightarrow> io
    \<Rightarrow> unit outcome \<times> engine \<times> io" where
  "ai_attack sk post self max_attempts digits s =
     (if \<not> hasattr_predict_proba (classifier self) then
        (Returns (), self,
         log_to ERROR ''AI model not trained. Please run fingerprinting/training first.'' s)
      else
        (let candidates = map (format_otp digits) [0..<10 ^ digits]
         in case score_all sk self candidates s of
              (Raises e, s1) \<Rightarrow> (Raises e, self, s1)
            | (Returns keys, s1) \<Rightarrow>
                ai_loop post self max_attempts 0 (ranked_by keys candidates) s1))"

fun adaptive_loop :: "transport \<Rightarrow> engine \<Rightarrow> nat \<Rightarrow> nat list \<Rightarrow> io
    \<Rightarrow> unit outcome \<times> engine \<times> io" where
  "adaptive_loop post self digits [] s = (Returns (), self, s)"
| "adaptive_loop post self digits (i # rest) s =
     (case verify post self (format_otp digits i) s of
        (Raises e, self1, s1) \<Rightarrow> (Raises e, self1, s1)
      | (Returns r, self1, s1) \<Rightarrow>
          if contains (rec_text r) ''success'' \<or> rec_status r = 200 then
            (announce_hit, self1, s1)
          else adaptive_loop post self1 digits rest s1)"

text \<open>\<^verbatim>\<open>for i in range(max_attempts)\<close>: the range is empty for a negative bound.\<close>

definition adaptive_attack :: "transport \<Rightarrow> engine \<Rightarrow> int \<Rightarrow> nat \<Rightarrow> io
    \<Rightarrow> unit outcome \<times> engine \<times> io" where
  "adaptive_attack post self max_attempts digits s =
     adaptive_loop post self digits [0..<nat max_attempts] s"

subsection \<open>Persistence\<close>

text \<open>
  A JSON document is its syntax tree; \<^verbatim>\<open>json.dump\<close> writes a float and an int as different
  number tokens, and \<^verbatim>\<open>json.load\<close> reads them back as such. A file holds either a document
  or text that \<^verbatim>\<open>json.load\<close> rejects (with the decoder's message). A path may also refuse
  to be opened for writing or for reading, with the exception that \<^verbatim>\<open>open\<close> raises.
\<close>

datatype json =
    JNull | JBool bool | JInt int | JFloat real | JString string
  | JArray "json list" | JObject "(string \<times> json) list"

datatype content = JsonText json | NotJson string

record filesystem =
  files :: "string \<rightharpoonup> content"
  write_error :: "string \<rightharpoonup> exn"
  read_error :: "string \<rightharpoonup> exn"

definition json_of_num :: "pynum \<Rightarrow> json" where
  "json_of_num n = (case n of PyInt i \<Rightarrow> JInt i | PyFloat x \<Rightarrow> JFloat x)"

definition json_of_attempt :: "attempt \<Rightarrow> json" where
  "json_of_attempt r =
     JObject [(''otp'', JString (rec_otp r)), (''status'', JInt (rec_status r)),
              (''text'', JString (rec_text r)), (''time'', json_of_num (rec_time r))]"

text \<open>\<^verbatim>\<open>json.dump(self.history, f, indent=4)\<close>\<close>

definition json_dump :: "attempt list \<Rightarrow> json" where
  "json_dump h = JArray (map json_of_attempt h)"

text \<open>
  What \<^verbatim>\<open>json.load\<close> returns, read as a history: a list of objects with the four entries
  of an attempt record. Any other document is a value outside the history's declared type.
\<close>

fun attempt_of_json :: "json \<Rightarrow> attempt option" where
  "attempt_of_json (JObject [(k1, JString c), (k2, JInt st), (k3, JString t), (k4, n)]) =
     (if k1 = ''otp'' \<and> k2 = ''status'' \<and> k3 = ''text'' \<and> k4 = ''time'' then
        (case n of
           JInt i \<Rightarrow> Some \<lparr>rec_otp = c, rec_status = st, rec_text = t, rec_time = PyInt i\<rparr>
         | JFloat x \<Rightarrow> Some \<lparr>rec_otp = c, rec_status = st, rec_text = t, rec_time = PyFloat x\<rparr>
         | _ \<Rightarrow> None)
      else None)"
| "attempt_of_json j = None"

fun attempts_of_json :: "json list \<Rightarrow> attempt list option" where
  "attempts_of_json [] = Some []"
| "attempts_of_json (j # js) =
     (case attempt_of_json j of
        None \<Rightarrow> None
      | Some r \<Rightarrow> (case attempts_of_json js of None \<Rightarrow> None | Some rs \<Rightarrow> Some (r # rs)))"

definition history_of_json :: "json \<Rightarrow> attempt list option" where
  "history_of_json j = (case j of JArray js \<Rightarrow> attempts_of_json js | _ \<Rightarrow> None)"

definition save_state :: "engine \<Rightarrow> filesystem \<Rightarrow> io \<Rightarrow> unit outcome \<times> filesystem \<times> io" where
  "save_state self fs s =
     (case write_error fs (state_file self) of
        None \<Rightarrow>
          (Returns (),
           fs\<lparr>files := (files fs)(state_file self \<mapsto> JsonText (json_dump (history self)))\<rparr>, s)
      | Some e \<Rightarrow>
          if isinstance e Exception then
            (Returns (), fs,
             log_to ERROR (''Error saving state to '' @ state_file self @ '': '' @ exn_msg e) s)
          else (Raises e, fs, s))"

text \<open>
  The engine after \<^verbatim>\<open>load_state\<close>: \<open>Loaded\<close> with the engine, or \<open>Foreign\<close> when the file
  held a well-formed document that is no list of attempt records; Python then binds
  \<^verbatim>\<open>self.history\<close> to that value, and the model follows the engine no further.
\<close>

datatype loaded = Loaded engine | Foreign json

definition mk_FileNotFoundError :: "string \<Rightarrow> exn" where
  "mk_FileNotFoundError path =
     \<lparr>exn_mro = [FileNotFoundError, OSError, Exception, BaseException],
      exn_msg = ''[Errno 2] No such file or directory: '' @ squote path\<rparr>"

definition mk_JSONDecodeError :: "string \<Rightarrow> exn" where
  "mk_JSONDecodeError m =
     \<lparr>exn_mro = [JSONDecodeError, ValueError, Exception, BaseException], exn_msg = m\<rparr>"

text \<open>The three \<^verbatim>\<open>except\<close> clauses of \<^verbatim>\<open>load_state\<close>, in the order of the source.\<close>

definition load_failed :: "engine \<Rightarrow> exn \<Rightarrow> io \<Rightarrow> loaded outcome \<times> io" where
  "load_failed self e s =
     (if isinstance e FileNotFoundError then
        (Returns (Loaded self),
         log_to WARNING (''No saved state found at '' @ state_file self @ ''.'') s)
      else if isinstance e JSONDecodeError then
        (Returns (Loaded self),
         log_to ERROR (''Error decoding JSON from '' @ state_file self @ '': '' @ exn_msg e
           @ ''. File might be corrupted.'') s)
      else if isinstance e Exception then
        (Returns (Loaded self),
         log_to ERROR (''An unexpected error occurred loading state from '' @ state_file self
           @ '': '' @ exn_msg e) s)
      else (Raises e, s))"

definition load_state :: "engine \<Rightarrow> filesystem \<Rightarrow> io \<Rightarrow> loaded outcome \<times> io" where
  "load_state self fs s =
     (case read_error fs (state_file self) of
        Some e \<Rightarrow> load_failed self e s
      | None \<Rightarrow>
          (case files fs (state_file self) of
             None \<Rightarrow> load_failed self (mk_FileNotFoundError (state_file self)) s
           | Some (NotJson m) \<Rightarrow> load_failed self (mk_JSONDecodeError m) s
           | Some (JsonText j) \<Rightarrow>
               (case history_of_json j of
                  Some h \<Rightarrow> (Returns (Loaded (self\<lparr>history := h\<rparr>)), s)
                | None \<Rightarrow> (Returns (Foreign j), s))))"

section \<open>\<^verbatim>\<open>OTPAttacker\<close>\<close>

text \<open>
  The class of \<^verbatim>\<open>otp_attacker.py\<close> has three attributes: the base URL, the user and the
  session. It keeps no history, and \<^verbatim>\<open>verify_otp\<close> has no \<^verbatim>\<open>try\<close>.
\<close>

record attacker =
  atk_base_url :: string
  atk_user_id :: string

definition verify_otp_request :: "attacker \<Rightarrow> string \<Rightarrow> request" where
  "verify_otp_request self code =
     \<lparr>req_url = atk_base_url self @ ''/auth/verify-otp'',
      req_json = [(''user_id'', atk_user_id self), (''otp'', code)],
      req_proxies = None,
      req_timeout = None\<rparr>"

text \<open>\<^verbatim>\<open>verify_otp\<close>, given what the post of its request gives back.\<close>

definition verify_otp :: "post_result \<Rightarrow> (int \<times> string) outcome" where
  "verify_otp res =
     (case res of
        Response status_code body elapsed \<Rightarrow> Returns (status_code, body)
      | Fails e \<Rightarrow> Raises e)"

text \<open>
  \<^verbatim>\<open>race_attack\<close>. \<^verbatim>\<open>list(pool.map(...))\<close> yields the results in the order of
  submission, whatever the order of completion, and re-raises the exception of the first
  task, in that order, that raised. The argument \<open>answers\<close> gives, for the task submitted as number \<open>i\<close>, what
  its post gives back; the interleaving of the worker threads is the environment's choice
  and is part of it. The second component lists the requests of the tasks handed to the
  pool, one per task. \<^verbatim>\<open>ThreadPoolExecutor\<close> rejects a pool of no workers.
\<close>

definition race_attack :: "attacker \<Rightarrow> string \<Rightarrow> int \<Rightarrow> (nat \<Rightarrow> post_result)
    \<Rightarrow> (int \<times> string) list outcome \<times> request list" where
  "race_attack self known_otp attempts answers =
     (if attempts \<le> 0 then
        (Raises \<lparr>exn_mro = [ValueError, Exception, BaseException],
                 exn_msg = ''max_workers must be greater than 0''\<rparr>, [])
      else
        (collect (map (\<lambda>i. verify_otp (answers i)) [0..<nat attempts]),
         map (\<lambda>i. verify_otp_request self known_otp) [0..<nat attempts]))"

section \<open>\<^verbatim>\<open>ProxyMonitor\<close>\<close>

text \<open>
  One call of \<^verbatim>\<open>proxy_alive\<close> meets one of four situations: the URL has no host or no
  port, the socket connects, connecting raises an \<^verbatim>\<open>OSError\<close> (logged at debug level
  only), or something else is raised (logged as an error). Only a connection gives \<open>True\<close>.
\<close>

datatype probe = NoHostOrPort | Connects | Refuses exn | Unexpected exn

definition proxy_alive :: "string \<Rightarrow> probe \<Rightarrow> io \<Rightarrow> bool \<times> io" where
  "proxy_alive url p s =
     (case p of
        NoHostOrPort \<Rightarrow> (False, log_to ERROR (''Invalid proxy URL format: '' @ url) s)
      | Connects \<Rightarrow> (True, s)
      | Refuses e \<Rightarrow> (False, s)
      | Unexpected e \<Rightarrow>
          (False,
           log_to ERROR (''Unexpected error checking proxy '' @ url @ '' reachability: ''
             @ exn_msg e) s))"

definition init_monitor :: "string \<Rightarrow> bool \<Rightarrow> int \<Rightarrow> probe \<Rightarrow> io \<Rightarrow> ProxyMonitor \<times> io" where
  "init_monitor url frc interval p s =
     (let (ok, s1) = proxy_alive url p s
      in (\<lparr>proxy_url = url, force = frc, check_interval = interval, running = True,
           alive = ok\<rparr>, s1))"

text \<open>
  The monitor thread. What it meets at each turn of the loop is a \<open>tick\<close>: whether
  \<^verbatim>\<open>stop()\<close> has been called by the time the loop condition is read, and the situation
  of the probe that would follow. What it does is a trace of events. The loop has ended,
  the process has been shut down by \<^verbatim>\<open>os._exit(1)\<close>, or the ticks ran out with the thread
  still looping.
\<close>

record tick =
  stop_called :: bool
  probed :: probe

datatype event = Probe bool | AliveSetFalse | Sleep int

datatype thread_state = LoopEnded | ProcessExit int | StillLooping

fun monitor_loop :: "ProxyMonitor \<Rightarrow> tick list \<Rightarrow> io
    \<Rightarrow> thread_state \<times> ProxyMonitor \<times> event list \<times> io" where
  "monitor_loop self [] s = (StillLooping, self, [], s)"
| "monitor_loop self (t # rest) s =
     (let self1 = (if stop_called t then self\<lparr>running := False\<rparr> else self)
      in if \<not> running self1 then (LoopEnded, self1, [], s)
         else
           (let (ok, s1) = proxy_alive (proxy_url self1) (probed t) s
            in if \<not> ok then
                 (let self2 = self1\<lparr>alive := False\<rparr>
                  in if force self2 then
                       (ProcessExit 1, self2, [Probe False, AliveSetFalse],
                        log_to CRITICAL (''Proxy '' @ proxy_url self2
                          @ '' went down. Aborting (force mode).'') s1)
                     else
                       (LoopEnded, self2, [Probe False, AliveSetFalse],
                        log_to WARNING (''Proxy '' @ proxy_url self2
                          @ '' went down. Switching to direct connection.'') s1))
               else
                 (case monitor_loop self1 rest s1 of
                    (st, self3, evs, s3) \<Rightarrow>
                      (st, self3, Probe True # Sleep (check_interval self1) # evs, s3))))"

section \<open>Sample values\<close>

definition always_status :: "int \<Rightarrow> string \<Rightarrow> transport" where
  "always_status st body seen rq = Response st body (1 / 10)"

definition always_fails :: "exn \<Rightarrow> transport" where
  "always_fails e seen rq = Fails e"

definition io0 :: io where
  "io0 = \<lparr>sent = [], log = []\<rparr>"

definition eng0 :: engine where
  "eng0 = init ''https://t.test'' ''u1'' ''/auth/verify-otp'' None True None"

text \<open>
  A stand-in estimator that, like the random forest, accepts training data of a single
  class: it predicts the share of each class among the training labels.
\<close>

definition class_shares :: sklearn where
  "class_shares =
     \<lparr>fit_raises = (\<lambda>X y. None),
      predict_proba = (\<lambda>X y row.
        Returns (map (\<lambda>k. real (length (filter (\<lambda>l. l = k) y)) / real (length y))
                   [0..<Suc (Max (set y))]))\<rparr>"

definition fs0 :: filesystem where
  "fs0 = \<lparr>files = Map.empty, write_error = Map.empty, read_error = Map.empty\<rparr>"

definition failed_attempt :: attempt where
  "failed_attempt = \<lparr>rec_otp = ''000'', rec_status = 400, rec_text = ''invalid otp'',
                      rec_time = PyFloat (1 / 10)\<rparr>"

definition eng1 :: engine where
  "eng1 = eng0\<lparr>history := [failed_attempt]\<rparr>"

text \<open>A one-character code: the superscript two.\<close>

definition superscript_two :: string where
  "superscript_two = [CHR 0xB2]"

definition atk0 :: attacker where
  "atk0 = \<lparr>atk_base_url = ''https://t.test'', atk_user_id = ''u1''\<rparr>"

definition all_fail :: "exn \<Rightarrow> nat \<Rightarrow> post_result" where
  "all_fail e i = Fails e"

definition all_respond :: "int \<Rightarrow> string \<Rightarrow> nat \<Rightarrow> post_result" where
  "all_respond st body i = Response st body (1 / 10)"

definition tick_up :: tick where
  "tick_up = \<lparr>stop_called = False, probed = Connects\<rparr>"

definition tick_down :: tick where
  "tick_down = \<lparr>stop_called = False,
                 probed = Refuses \<lparr>exn_mro = [OtherClass ''ConnectionRefusedError'', OSError,
                                              Exception, BaseException],
                                   exn_msg = ''[Errno 111] Connection refused''\<rparr>\<rparr>"

definition mon0 :: ProxyMonitor where
  "mon0 = \<lparr>proxy_url = ''http://127.0.0.1:8080'', force = False, check_interval = 5,
            running = True, alive = True\<rparr>"

definition eng_proxied :: "ProxyMonitor \<Rightarrow> engine" where
  "eng_proxied m =
     init ''https://t.test'' ''u1'' ''/auth/verify-otp'' (Some ''http://127.0.0.1:8080'') True (Some m)"

section \<open>Predicates used in the statements\<close>

definition responds :: "post_result \<Rightarrow> bool" where
  "responds res = (case res of Response st body t \<Rightarrow> True | Fails e \<Rightarrow> False)"

definition is_probe :: "event \<Rightarrow> bool" where
  "is_probe ev = (case ev of Probe b \<Rightarrow> True | _ \<Rightarrow> False)"

definition otp_of_request :: "request \<Rightarrow> string" where
  "otp_of_request rq = (case map_of (req_json rq) ''otp'' of None \<Rightarrow> [] | Some c \<Rightarrow> c)"

text \<open>
  The estimator raises nothing but ordinary exceptions (instances of \<^verbatim>\<open>Exception\<close>), which
  the \<^verbatim>\<open>except Exception\<close> clauses of \<^verbatim>\<open>train_model\<close> and \<^verbatim>\<open>predict_likelihood\<close> catch.
\<close>

definition raises_only_exceptions :: "sklearn \<Rightarrow> bool" where
  "raises_only_exceptions sk =
     ((\<forall>X y e. fit_raises sk X y = Some e \<longrightarrow> isinstance e Exception)
      \<and> (\<forall>X y row e. predict_proba sk X y row = Raises e \<longrightarrow> isinstance e Exception))"

text \<open>
  A transport that never answers with a hit and never fails outside the classes that
  \<^verbatim>\<open>verify\<close> turns into sentinel records.
\<close>

definition never_hits :: "transport \<Rightarrow> bool" where
  "never_hits post =
     (\<forall>seen rq. case post seen rq of
        Response st body t \<Rightarrow> st \<noteq> 200 \<and> \<not> contains (lower (strip body)) ''success''
      | Fails e \<Rightarrow> isinstance e RequestException)"


section \<open>Properties of \<^verbatim>\<open>verify\<close>\<close>

text \<open>
  Claim C1, as amended. \<^verbatim>\<open>verify\<close> appends exactly one record to the history, the record it
  returns, when the request gets a response. When the request raises, the history is left
  as it was: the sentinel record of a transport failure is returned to the caller and
  appended nowhere.
\<close>

theorem verify_appends_on_response_only:
  "(post (sent s) (verify_request self code) = Response st body t \<longrightarrow>
      (\<exists>r. fst (verify post self code s) = Returns r
          \<and> history (fst (snd (verify post self code s))) = history self @ [r]))
   \<and> (post (sent s) (verify_request self code) = Fails e \<longrightarrow>
      history (fst (snd (verify post self code s))) = history self)"
  by (simp add: verify_def Let_def)

text \<open>Witness for C1: a response of status 400, and a read timeout.\<close>

theorem verify_appends_on_response_only_witness:
  "(\<exists>r. fst (verify (always_status 400 ''no'') eng0 ''000'' io0) = Returns r
      \<and> history (fst (snd (verify (always_status 400 ''no'') eng0 ''000'' io0)))
          = history eng0 @ [r])
   \<and> history (fst (snd (verify (always_fails (mk_ReadTimeout ''slow'')) eng0 ''000'' io0)))
       = history eng0"
  using verify_appends_on_response_only
      [of "always_status 400 ''no''" io0 eng0 "''000''" 400 "''no''" "1 / 10"]
    verify_appends_on_response_only
      [of "always_fails (mk_ReadTimeout ''slow'')" io0 eng0 "''000''" _ _ _
          "mk_ReadTimeout ''slow''"]
  by (simp add: always_status_def always_fails_def)

text \<open>
  Counterexample to C1 as stated: on a proxy failure \<^verbatim>\<open>verify\<close> returns the sentinel record
  of status 999, and the history of the fresh engine is still empty afterwards.
\<close>

theorem verify_sentinel_not_recorded:
  "fst (verify (always_fails (mk_ProxyError ''down'')) eng0 ''000'' io0)
     = Returns (sentinel ''000'' 999 ''proxy_error'')
   \<and> history (fst (snd (verify (always_fails (mk_ProxyError ''down'')) eng0 ''000'' io0))) = []
   \<and> history eng0 = []"
  by (simp add: verify_def Let_def always_fails_def mk_ProxyError_def isinstance_def eng0_def
        init_def)

text \<open>
  Claim C6, as amended. A transport failure (an instance of \<^verbatim>\<open>RequestException\<close>) is
  classified by the first \<^verbatim>\<open>except\<close> clause that matches, in the order proxy, connection,
  timeout, other: a proxy error gives (999, proxy_error); a connection error that is no
  proxy error gives (998, connection_error); a timeout that is no connection error gives
  (997, timeout_error); every other one gives (996, request_error). The record's time is
  the int 0 in each case.
\<close>

theorem verify_sentinel_first_match:
  assumes "post (sent s) (verify_request self code) = Fails e"
      and "isinstance e RequestException"
  shows "(isinstance e ProxyError \<longrightarrow>
            fst (verify post self code s) = Returns (sentinel code 999 ''proxy_error''))
       \<and> (\<not> isinstance e ProxyError \<and> isinstance e ConnectionError \<longrightarrow>
            fst (verify post self code s) = Returns (sentinel code 998 ''connection_error''))
       \<and> (\<not> isinstance e ProxyError \<and> \<not> isinstance e ConnectionError
            \<and> isinstance e Timeout \<longrightarrow>
            fst (verify post self code s) = Returns (sentinel code 997 ''timeout_error''))
       \<and> (\<not> isinstance e ProxyError \<and> \<not> isinstance e ConnectionError
            \<and> \<not> isinstance e Timeout \<longrightarrow>
            fst (verify post self code s) = Returns (sentinel code 996 ''request_error''))
       \<and> (\<exists>r. fst (verify post self code s) = Returns r \<and> rec_time r = PyInt 0)"
  using assms by (simp add: verify_def Let_def sentinel_def)

text \<open>Witness for C6: one failure of each of the four kinds.\<close>

theorem verify_sentinel_first_match_witness:
  "fst (verify (always_fails (mk_ProxyError ''p'')) eng0 ''000'' io0)
     = Returns (sentinel ''000'' 999 ''proxy_error'')
   \<and> fst (verify (always_fails (mk_ConnectionError ''c'')) eng0 ''000'' io0)
     = Returns (sentinel ''000'' 998 ''connection_error'')
   \<and> fst (verify (always_fails (mk_ReadTimeout ''t'')) eng0 ''000'' io0)
     = Returns (sentinel ''000'' 997 ''timeout_error'')
   \<and> fst (verify (always_fails (mk_RequestException ''r'')) eng0 ''000'' io0)
     = Returns (sentinel ''000'' 996 ''request_error'')"
  using verify_sentinel_first_match
      [of "always_fails (mk_ProxyError ''p'')" io0 eng0 "''000''" "mk_ProxyError ''p''"]
    verify_sentinel_first_match
      [of "always_fails (mk_ConnectionError ''c'')" io0 eng0 "''000''" "mk_ConnectionError ''c''"]
    verify_sentinel_first_match
      [of "always_fails (mk_ReadTimeout ''t'')" io0 eng0 "''000''" "mk_ReadTimeout ''t''"]
    verify_sentinel_first_match
      [of "always_fails (mk_RequestException ''r'')" io0 eng0 "''000''" "mk_RequestException ''r''"]
  by (simp add: always_fails_def isinstance_def mk_ProxyError_def mk_ConnectionError_def
        mk_ReadTimeout_def mk_RequestException_def)

text \<open>
  Counterexample to C6 as stated: a connect timeout is a timeout failure (an instance of
  \<^verbatim>\<open>Timeout\<close>), and \<^verbatim>\<open>verify\<close> answers it with (998, connection_error), since the clause
  for \<^verbatim>\<open>ConnectionError\<close> comes first.
\<close>

theorem connect_timeout_is_998:
  "isinstance (mk_ConnectTimeout ''timed out'') Timeout
   \<and> fst (verify (always_fails (mk_ConnectTimeout ''timed out'')) eng0 ''000'' io0)
       = Returns (sentinel ''000'' 998 ''connection_error'')
   \<and> fst (verify (always_fails (mk_ConnectTimeout ''timed out'')) eng0 ''000'' io0)
       \<noteq> Returns (sentinel ''000'' 997 ''timeout_error'')"
  by (simp add: verify_def Let_def sentinel_def always_fails_def mk_ConnectTimeout_def
        isinstance_def)

section \<open>Properties of \<^verbatim>\<open>race_attack\<close>\<close>

lemma collect_all_return:
  "\<forall>r \<in> set outs. \<exists>a. r = Returns a \<Longrightarrow>
   \<exists>rs. collect outs = Returns rs \<and> map Returns rs = outs"
proof (induction outs)
  case Nil
  then show ?case by simp
next
  case (Cons x xs)
  then obtain a where a: "x = Returns a" by auto
  from Cons obtain rs where "collect xs = Returns rs" "map Returns rs = xs" by auto
  with a show ?case by simp
qed

text \<open>
  Claim C2, as amended. For \<open>N \<ge> 1\<close>, \<^verbatim>\<open>race_attack\<close> hands \<open>N\<close> tasks to the pool, each
  posting the same request for the one candidate. When every one of them gets a response,
  it returns exactly \<open>N\<close> results, the result at position \<open>i\<close> being that of the task
  submitted as number \<open>i\<close>, whatever the order of completion. The attacker has no history,
  so none is appended to.
\<close>

theorem race_attack_results:
  assumes "1 \<le> N"
      and "\<forall>i < nat N. responds (answers i)"
  shows "\<exists>rs. fst (race_attack self known_otp N answers) = Returns rs
             \<and> length rs = nat N
             \<and> (\<forall>i < nat N. verify_otp (answers i) = Returns (rs ! i))
             \<and> snd (race_attack self known_otp N answers)
                 = replicate (nat N) (verify_otp_request self known_otp)"
proof -
  let ?os = "map (\<lambda>i. verify_otp (answers i)) [0..<nat N]"
  have "\<forall>r \<in> set ?os. \<exists>a. r = Returns a"
    using assms(2) by (auto simp: verify_otp_def responds_def split: post_result.splits)
  then obtain rs where rs: "collect ?os = Returns rs" "map Returns rs = ?os"
    using collect_all_return by blast
  from rs(2) have len: "length rs = nat N"
    by (metis length_map length_upt diff_zero)
  have nth: "\<forall>i < nat N. verify_otp (answers i) = Returns (rs ! i)"
  proof (intro allI impI)
    fix i assume i: "i < nat N"
    have "?os ! i = verify_otp (answers i)" using i by simp
    moreover have "(map Returns rs) ! i = Returns (rs ! i)" using i len by simp
    ultimately show "verify_otp (answers i) = Returns (rs ! i)" using rs(2) by simp
  qed
  have rq: "map (\<lambda>i. verify_otp_request self known_otp) [0..<nat N]
              = replicate (nat N) (verify_otp_request self known_otp)"
    by (simp add: map_replicate_const)
  show ?thesis using assms(1) rs(1) len nth rq by (simp add: race_attack_def)
qed

text \<open>Witness for C2: three attempts, each answered with status 400.\<close>

theorem race_attack_results_witness:
  "\<exists>rs. fst (race_attack atk0 ''123456'' 3 (all_respond 400 ''no'')) = Returns rs
       \<and> length rs = 3
       \<and> snd (race_attack atk0 ''123456'' 3 (all_respond 400 ''no''))
           = replicate 3 (verify_otp_request atk0 ''123456'')"
  using race_attack_results [of 3 "all_respond 400 ''no''" atk0 "''123456''"]
  by (auto simp: all_respond_def responds_def)

text \<open>
  Counterexample to C2 as stated: with one attempt whose post raises a connection error,
  \<^verbatim>\<open>race_attack\<close> raises that error and returns no list of results.
\<close>

theorem race_attack_raises:
  "fst (race_attack atk0 ''123456'' 1 (all_fail (mk_ConnectionError ''refused'')))
     = Raises (mk_ConnectionError ''refused'')"
  by (simp add: race_attack_def verify_otp_def all_fail_def)

section \<open>Properties of the ranking model\<close>

lemma record_label_Fail: "\<not> is_hit r \<Longrightarrow> record_label r = Fail"
  by (simp add: is_hit_def record_label_def)

lemma labels_all_Fail:
  "\<forall>r \<in> set h. \<not> is_hit r \<Longrightarrow> map record_label h = map (\<lambda>r. Fail) h"
  by (induction h) (simp_all add: record_label_Fail)

lemma fit_classes_all_Fail: "h \<noteq> [] \<Longrightarrow> fit_classes (map (\<lambda>r. Fail) h) = [Fail]"
  by (cases h) (auto simp: fit_classes_def)

lemma predict_zero_without_success:
  assumes "encoder_classes self = Some [Fail]" and "raises_only_exceptions sk"
      and "first_digit code = Returns d"
  shows "fst (predict_likelihood sk self code s) = Returns 0"
proof (cases "classifier self")
  case Unfitted
  then show ?thesis
    using assms(3)
    by (simp add: predict_likelihood_def predict_failed_def mk_NotFittedError_def isinstance_def)
next
  case (Fitted X y)
  show ?thesis
  proof (cases "predict_proba sk X y
      [PyInt (int (length code)), PyInt d, PyInt 200, PyFloat (1 / 10)]")
    case (Returns proba)
    with Fitted assms(1,3) show ?thesis by (simp add: predict_likelihood_def)
  next
    case (Raises e)
    with assms(2) have "isinstance e Exception"
      unfolding raises_only_exceptions_def by blast
    with Fitted Raises assms(3) show ?thesis
      by (simp add: predict_likelihood_def predict_failed_def)
  qed
qed

text \<open>
  What holds of training on failures only. The history is not empty, its records all carry
  the fail label, and their rows can be built. Then \<^verbatim>\<open>train_model\<close> does not raise and
  refits the label encoder to the single class fail. The classifier ends fitted on that
  data when the estimator's \<^verbatim>\<open>fit\<close> accepts it, and stays as it was when \<^verbatim>\<open>fit\<close> raises.
  Either way a later \<^verbatim>\<open>predict_likelihood\<close> returns 0.0 for every candidate whose row can
  be built.
\<close>

lemma train_on_failures_only:
  assumes "history self \<noteq> []"
      and "\<forall>r \<in> set (history self). \<not> is_hit r"
      and "collect (map record_features (history self)) = Returns X"
      and "raises_only_exceptions sk"
      and "train_model sk self s = (res, self', s')"
      and "first_digit code = Returns d"
  shows "res = Returns ()
       \<and> encoder_classes self' = Some [Fail]
       \<and> (fit_raises sk X (map (\<lambda>r. 0) (history self)) = None
            \<longrightarrow> classifier self' = Fitted X (map (\<lambda>r. 0) (history self)))
       \<and> (fit_raises sk X (map (\<lambda>r. 0) (history self)) \<noteq> None
            \<longrightarrow> classifier self' = classifier self)
       \<and> fst (predict_likelihood sk self' code s2) = Returns 0"
proof -
  let ?y = "map (\<lambda>r. 0::nat) (history self)"
  have y: "map record_label (history self) = map (\<lambda>r. Fail) (history self)"
    using assms(2) by (rule labels_all_Fail)
  have cl: "fit_classes (map (\<lambda>r. Fail) (history self)) = [Fail]"
    using assms(1) by (rule fit_classes_all_Fail)
  have enc: "map (index_of [Fail]) (map (\<lambda>r. Fail) (history self)) = ?y" by simp
  have tm: "train_model sk self s =
      (case fit_raises sk X ?y of
         None \<Rightarrow>
           (Returns (), self\<lparr>encoder_classes := Some [Fail], classifier := Fitted X ?y\<rparr>, s)
       | Some e \<Rightarrow>
           if isinstance e ValueError then
             (Returns (), self\<lparr>encoder_classes := Some [Fail]\<rparr>,
              log_to ERROR (''Error training model: '' @ exn_msg e
                @ ''. This might happen if '' @ squote ''success'' @ '' or ''
                @ squote ''fail'' @ '' labels are missing.'') s)
           else if isinstance e Exception then
             (Returns (), self\<lparr>encoder_classes := Some [Fail]\<rparr>,
              log_to ERROR (''An unexpected error occurred during model training: ''
                @ exn_msg e) s)
           else (Raises e, self\<lparr>encoder_classes := Some [Fail]\<rparr>, s))"
    unfolding train_model_def assms(3) Let_def y cl enc using assms(1)
    by (simp only: if_False outcome.case)
  show ?thesis
  proof (cases "fit_raises sk X ?y")
    case None
    from assms(5) have r: "res = Returns ()"
      "self' = self\<lparr>encoder_classes := Some [Fail], classifier := Fitted X ?y\<rparr>"
      unfolding tm None by simp_all
    have "encoder_classes self' = Some [Fail]" using r(2) by simp
    then have "fst (predict_likelihood sk self' code s2) = Returns 0"
      using assms(4) assms(6) by (rule predict_zero_without_success)
    with r None show ?thesis by simp
  next
    case (Some e)
    with assms(4) have ex: "isinstance e Exception"
      unfolding raises_only_exceptions_def by blast
    from assms(5) ex have r: "res = Returns ()"
      "self' = self\<lparr>encoder_classes := Some [Fail]\<rparr>"
      unfolding tm Some by (auto split: if_splits)
    have "encoder_classes self' = Some [Fail]" using r(2) by simp
    then have "fst (predict_likelihood sk self' code s2) = Returns 0"
      using assms(4) assms(6) by (rule predict_zero_without_success)
    with r Some show ?thesis by simp
  qed
qed

text \<open>
  A code that starts with a superscript digit: \<^verbatim>\<open>isdigit\<close> accepts the character and
  \<^verbatim>\<open>int\<close> rejects it, outside the \<^verbatim>\<open>try\<close> of either method, so both raise.
\<close>

lemma superscript_digit_raises:
  "fst (train_model class_shares (eng0\<lparr>history := [failed_attempt\<lparr>rec_otp := superscript_two\<rparr>]\<rparr>) io0)
     = Raises (mk_ValueError (''invalid literal for int() with base 10: '' @ squote superscript_two))
   \<and> fst (predict_likelihood class_shares eng0 superscript_two io0)
     = Raises (mk_ValueError (''invalid literal for int() with base 10: '' @ squote superscript_two))"
  by (simp add: train_model_def predict_likelihood_def record_features_def first_digit_def
        is_digit_def int_of_char_def superscript_two_def eng0_def init_def failed_attempt_def)

text \<open>
  Claim C4, at its failing input. The one record of the history carries the fail label,
  and the estimator accepts training data of a single class, as the random forest does.
  \<^verbatim>\<open>train_model\<close> returns with the classifier fitted on that record, not untrained, and
  with no warning and no error logged: the handler whose message names the missing labels
  is never entered.
\<close>

theorem fail_only_training_fits:
  "record_label failed_attempt = Fail
   \<and> history eng1 = [failed_attempt]
   \<and> classifier eng1 = Unfitted
   \<and> train_model class_shares eng1 io0
       = (Returns (),
          eng1\<lparr>encoder_classes := Some [Fail],
               classifier := Fitted [[PyInt 3, PyInt 0, PyInt 400, PyFloat (1 / 10)]] [0]\<rparr>,
          io0)"
  by (simp add: train_model_def Let_def eng1_def eng0_def init_def failed_attempt_def
        record_label_def record_features_def first_digit_def is_digit_def int_of_char_def
        fit_classes_def class_shares_def)

section \<open>Properties of the attack loops\<close>

text \<open>What one call of \<^verbatim>\<open>verify\<close> does to the engine and to the requests sent.\<close>

lemma verify_request_history:
  "verify_request (self\<lparr>history := h\<rparr>) code = verify_request self code"
  by (simp add: verify_request_def split: option.splits)

lemma verify_on_response:
  assumes "post (sent s) (verify_request self code) = Response st body t"
  shows "verify post self code s =
     (Returns \<lparr>rec_otp = code, rec_status = st, rec_text = lower (strip body),
               rec_time = PyFloat t\<rparr>,
      self\<lparr>history := history self @
        [\<lparr>rec_otp = code, rec_status = st, rec_text = lower (strip body),
          rec_time = PyFloat t\<rparr>]\<rparr>,
      s\<lparr>sent := sent s @ [verify_request self code]\<rparr>)"
  using assms by (simp add: verify_def Let_def)

lemma verify_on_failure:
  assumes "post (sent s) (verify_request self code) = Fails e"
  shows "\<exists>res s1. verify post self code s = (res, self, s1)
           \<and> sent s1 = sent s @ [verify_request self code]
           \<and> (isinstance e RequestException \<longrightarrow>
                (\<exists>r. res = Returns r \<and> \<not> contains (rec_text r) ''success''
                   \<and> rec_status r \<noteq> 200))"
  using assms by (simp add: verify_def Let_def log_to_def sentinel_def)

lemma verify_effect:
  "\<exists>res h s1. verify post self code s = (res, self\<lparr>history := h\<rparr>, s1)
     \<and> sent s1 = sent s @ [verify_request self code]"
proof (cases "post (sent s) (verify_request self code)")
  case (Response st body t)
  show ?thesis
    unfolding verify_on_response [of post s self code, OF Response]
    by (intro exI conjI) (rule refl, simp)
next
  case (Fails e)
  obtain res s1 where "verify post self code s = (res, self, s1)"
    "sent s1 = sent s @ [verify_request self code]"
    using verify_on_failure [of post s self code, OF Fails] by blast
  moreover have "self = self\<lparr>history := history self\<rparr>" by simp
  ultimately have "verify post self code s = (res, self\<lparr>history := history self\<rparr>, s1)
     \<and> sent s1 = sent s @ [verify_request self code]" by simp
  then show ?thesis by blast
qed

lemma adaptive_loop_sent_prefix:
  "\<exists>k \<le> length cands.
     sent (snd (snd (adaptive_loop post self d cands s)))
       = sent s @ map (\<lambda>i. verify_request self (format_otp d i)) (take k cands)"
proof (induction cands arbitrary: self s)
  case Nil
  then show ?case by simp
next
  case (Cons i rest)
  obtain res h s1 where v: "verify post self (format_otp d i) s = (res, self\<lparr>history := h\<rparr>, s1)"
    and s1: "sent s1 = sent s @ [verify_request self (format_otp d i)]"
    using verify_effect [of post self "format_otp d i" s] by blast
  show ?case
  proof (cases res)
    case (Raises e)
    have "sent (snd (snd (adaptive_loop post self d (i # rest) s)))
        = sent s @ map (\<lambda>i. verify_request self (format_otp d i)) (take 1 (i # rest))"
      using v s1 Raises by simp
    then show ?thesis by (intro exI [of _ 1]) simp
  next
    case (Returns r)
    show ?thesis
    proof (cases "contains (rec_text r) ''success'' \<or> rec_status r = 200")
      case True
      have "sent (snd (snd (adaptive_loop post self d (i # rest) s)))
          = sent s @ map (\<lambda>i. verify_request self (format_otp d i)) (take 1 (i # rest))"
        using v s1 Returns True by simp
      then show ?thesis by (intro exI [of _ 1]) simp
    next
      case False
      from Cons.IH [of "self\<lparr>history := h\<rparr>" s1] obtain k where k: "k \<le> length rest"
        "sent (snd (snd (adaptive_loop post (self\<lparr>history := h\<rparr>) d rest s1)))
           = sent s1 @ map (\<lambda>i. verify_request (self\<lparr>history := h\<rparr>) (format_otp d i)) (take k rest)"
        by blast
      have "sent (snd (snd (adaptive_loop post self d (i # rest) s)))
          = sent s @ map (\<lambda>i. verify_request self (format_otp d i)) (take (Suc k) (i # rest))"
        using v s1 Returns False k(2) by (simp add: verify_request_history)
      with k(1) show ?thesis by (intro exI [of _ "Suc k"]) simp
    qed
  qed
qed

lemma verify_no_hit:
  assumes "never_hits post"
  shows "\<exists>r h s1. verify post self code s = (Returns r, self\<lparr>history := h\<rparr>, s1)
           \<and> \<not> (contains (rec_text r) ''success'' \<or> rec_status r = 200)
           \<and> sent s1 = sent s @ [verify_request self code]"
proof (cases "post (sent s) (verify_request self code)")
  case (Response st body t)
  from assms have "case post (sent s) (verify_request self code) of
        Response st body t \<Rightarrow> st \<noteq> 200 \<and> \<not> contains (lower (strip body)) ''success''
      | Fails e \<Rightarrow> isinstance e RequestException"
    unfolding never_hits_def by blast
  with Response have nh: "st \<noteq> 200" "\<not> contains (lower (strip body)) ''success''" by simp_all
  show ?thesis
    unfolding verify_on_response [of post s self code, OF Response]
    using nh by (intro exI conjI) (rule refl, simp_all)
next
  case (Fails e)
  from assms have "case post (sent s) (verify_request self code) of
        Response st body t \<Rightarrow> st \<noteq> 200 \<and> \<not> contains (lower (strip body)) ''success''
      | Fails e \<Rightarrow> isinstance e RequestException"
    unfolding never_hits_def by blast
  with Fails have rq: "isinstance e RequestException" by simp
  obtain res s1 r where "verify post self code s = (res, self, s1)"
    "sent s1 = sent s @ [verify_request self code]"
    "res = Returns r" "\<not> contains (rec_text r) ''success''" "rec_status r \<noteq> 200"
    using verify_on_failure [of post s self code, OF Fails] rq by blast
  moreover have "self = self\<lparr>history := history self\<rparr>" by simp
  ultimately have "verify post self code s = (Returns r, self\<lparr>history := history self\<rparr>, s1)
     \<and> \<not> (contains (rec_text r) ''success'' \<or> rec_status r = 200)
     \<and> sent s1 = sent s @ [verify_request self code]" by simp
  then show ?thesis by blast
qed

lemma adaptive_loop_no_hit:
  assumes "never_hits post"
  shows "fst (adaptive_loop post self d cands s) = Returns ()
       \<and> sent (snd (snd (adaptive_loop post self d cands s)))
           = sent s @ map (\<lambda>i. verify_request self (format_otp d i)) cands"
proof (induction cands arbitrary: self s)
  case Nil
  then show ?case by simp
next
  case (Cons i rest)
  obtain r h s1 where v: "verify post self (format_otp d i) s = (Returns r, self\<lparr>history := h\<rparr>, s1)"
    and nh: "\<not> (contains (rec_text r) ''success'' \<or> rec_status r = 200)"
    and s1: "sent s1 = sent s @ [verify_request self (format_otp d i)]"
    using verify_no_hit [OF assms, of self "format_otp d i" s] by blast
  from Cons.IH [of "self\<lparr>history := h\<rparr>" s1] v nh s1 show ?case
    by (simp add: verify_request_history)
qed

lemma announce_hit_raises: "announce_hit = Raises (mk_NameError ''Fore'')"
  by (simp add: announce_hit_def read_global_def module_globals_def)

lemma verify_outcomes:
  "(\<exists>r s1. verify post self code s = (Returns r, self\<lparr>history := history self @ [r]\<rparr>, s1))
   \<or> (\<exists>res s1. verify post self code s = (res, self, s1))"
proof (cases "post (sent s) (verify_request self code)")
  case (Response st body t)
  show ?thesis
    unfolding verify_on_response [of post s self code, OF Response] by blast
next
  case (Fails e)
  then show ?thesis using verify_on_failure [of post s self code, OF Fails] by blast
qed

lemma adaptive_loop_returns_without_hit:
  "fst (adaptive_loop post self d cands s) = Returns () \<Longrightarrow>
   \<exists>new. history (fst (snd (adaptive_loop post self d cands s))) = history self @ new
        \<and> filter is_hit new = []"
proof (induction cands arbitrary: self s)
  case Nil
  then show ?case by simp
next
  case (Cons i rest)
  consider (appended) r s1 where
      "verify post self (format_otp d i) s = (Returns r, self\<lparr>history := history self @ [r]\<rparr>, s1)"
    | (unchanged) res s1 where "verify post self (format_otp d i) s = (res, self, s1)"
    using verify_outcomes [of post self "format_otp d i" s] by blast
  then show ?case
  proof cases
    case appended
    have nh: "\<not> (contains (rec_text r) ''success'' \<or> rec_status r = 200)"
      using Cons.prems appended by (auto simp: announce_hit_raises)
    then have rec: "adaptive_loop post self d (i # rest) s
        = adaptive_loop post (self\<lparr>history := history self @ [r]\<rparr>) d rest s1"
      using appended by simp
    with Cons.prems
    have "fst (adaptive_loop post (self\<lparr>history := history self @ [r]\<rparr>) d rest s1) = Returns ()"
      by simp
    from Cons.IH [OF this] obtain new where
      "history (fst (snd (adaptive_loop post (self\<lparr>history := history self @ [r]\<rparr>) d rest s1)))
         = (history self @ [r]) @ new" "filter is_hit new = []"
      by auto
    with rec nh have "history (fst (snd (adaptive_loop post self d (i # rest) s)))
         = history self @ (r # new) \<and> filter is_hit (r # new) = []"
      by (simp add: is_hit_def)
    then show ?thesis by blast
  next
    case unchanged
    show ?thesis
    proof (cases res)
      case (Raises e)
      with Cons.prems unchanged show ?thesis by simp
    next
      case (Returns r)
      have nh: "\<not> (contains (rec_text r) ''success'' \<or> rec_status r = 200)"
        using Cons.prems unchanged Returns by (auto simp: announce_hit_raises)
      then have rec: "adaptive_loop post self d (i # rest) s = adaptive_loop post self d rest s1"
        using unchanged Returns by simp
      with Cons.prems have "fst (adaptive_loop post self d rest s1) = Returns ()" by simp
      from Cons.IH [OF this] rec show ?thesis by simp
    qed
  qed
qed

lemma ai_loop_returns_without_hit:
  "fst (ai_loop post self mx n cands s) = Returns () \<Longrightarrow>
   \<exists>new. history (fst (snd (ai_loop post self mx n cands s))) = history self @ new
        \<and> filter is_hit new = []"
proof (induction cands arbitrary: self s n)
  case Nil
  then show ?case by simp
next
  case (Cons c rest)
  consider (appended) r s1 where
      "verify post self c s = (Returns r, self\<lparr>history := history self @ [r]\<rparr>, s1)"
    | (unchanged) res s1 where "verify post self c s = (res, self, s1)"
    using verify_outcomes [of post self c s] by blast
  then show ?case
  proof cases
    case appended
    have nh: "\<not> (contains (rec_text r) ''success'' \<or> rec_status r = 200)"
      using Cons.prems appended by (auto simp: announce_hit_raises)
    show ?thesis
    proof (cases "n + 1 \<ge> mx")
      case True
      with appended nh have "history (fst (snd (ai_loop post self mx n (c # rest) s)))
         = history self @ [r] \<and> filter is_hit [r] = []"
        by (simp add: is_hit_def)
      then show ?thesis by blast
    next
      case False
      with nh have rec: "ai_loop post self mx n (c # rest) s
          = ai_loop post (self\<lparr>history := history self @ [r]\<rparr>) mx (n + 1) rest s1"
        using appended by simp
      with Cons.prems
      have "fst (ai_loop post (self\<lparr>history := history self @ [r]\<rparr>) mx (n + 1) rest s1) = Returns ()"
        by simp
      from Cons.IH [OF this] obtain new where
        "history (fst (snd (ai_loop post (self\<lparr>history := history self @ [r]\<rparr>) mx (n + 1) rest s1)))
           = (history self @ [r]) @ new" "filter is_hit new = []"
        by auto
      with rec nh have "history (fst (snd (ai_loop post self mx n (c # rest) s)))
           = history self @ (r # new) \<and> filter is_hit (r # new) = []"
        by (simp add: is_hit_def)
      then show ?thesis by blast
    qed
  next
    case unchanged
    show ?thesis
    proof (cases res)
      case (Raises e)
      with Cons.prems unchanged show ?thesis by simp
    next
      case (Returns r)
      have nh: "\<not> (contains (rec_text r) ''success'' \<or> rec_status r = 200)"
        using Cons.prems unchanged Returns by (auto simp: announce_hit_raises)
      show ?thesis
      proof (cases "n + 1 \<ge> mx")
        case True
        with unchanged Returns nh show ?thesis by simp
      next
        case False
        with nh have rec: "ai_loop post self mx n (c # rest) s = ai_loop post self mx (n + 1) rest s1"
          using unchanged Returns by simp
        with Cons.prems have "fst (ai_loop post self mx (n + 1) rest s1) = Returns ()" by simp
        from Cons.IH [OF this] rec show ?thesis by simp
      qed
    qed
  qed
qed

lemma str_of_nat_length: "0 < d \<Longrightarrow> n < 10 ^ d \<Longrightarrow> length (str_of_nat n) \<le> d"
proof (induction d arbitrary: n)
  case 0
  then show ?case by simp
next
  case (Suc d)
  show ?case
  proof (cases "n < 10")
    case True
    then show ?thesis by (subst str_of_nat.simps) simp
  next
    case False
    then have d: "0 < d" using Suc.prems(2) by (cases d) simp_all
    have "n div 10 < 10 ^ d" using Suc.prems(2) by (simp add: less_mult_imp_div_less mult.commute)
    with Suc.IH d have "length (str_of_nat (n div 10)) \<le> d" by simp
    with False show ?thesis by (subst str_of_nat.simps) simp
  qed
qed

lemma format_otp_length: "0 < d \<Longrightarrow> i < 10 ^ d \<Longrightarrow> length (format_otp d i) = d"
  using str_of_nat_length [of d i] by (simp add: format_otp_def)

text \<open>
  Whatever the transport does, the requests of \<^verbatim>\<open>adaptive_attack\<close> are those for the
  candidates 0, 1, 2, ... in this order, zero-padded, up to some point below the bound.
\<close>

lemma adaptive_attack_sends_a_prefix:
  "\<exists>k \<le> nat max_attempts.
     sent (snd (snd (adaptive_attack post self max_attempts d s)))
       = sent s @ map (\<lambda>i. verify_request self (format_otp d i)) [0..<k]"
proof -
  obtain k where k: "k \<le> length [0..<nat max_attempts]"
    "sent (snd (snd (adaptive_loop post self d [0..<nat max_attempts] s)))
       = sent s @ map (\<lambda>i. verify_request self (format_otp d i)) (take k [0..<nat max_attempts])"
    using adaptive_loop_sent_prefix [of "[0..<nat max_attempts]" post self d s] by blast
  from k(1) have "take k [0..<nat max_attempts] = [0..<k]" by (simp add: take_upt)
  with k show ?thesis by (auto simp: adaptive_attack_def)
qed

text \<open>
  With no hit among the answers, \<^verbatim>\<open>adaptive_attack\<close> runs to its bound and returns: it
  sends one request for each of the candidates 0 to \<^verbatim>\<open>max_attempts - 1\<close>, in this order.
\<close>

lemma adaptive_attack_without_hit:
  assumes "never_hits post"
  shows "fst (adaptive_attack post self max_attempts d s) = Returns ()
       \<and> sent (snd (snd (adaptive_attack post self max_attempts d s)))
           = sent s @ map (\<lambda>i. verify_request self (format_otp d i)) [0..<nat max_attempts]"
  using adaptive_loop_no_hit [OF assms] by (simp add: adaptive_attack_def)

text \<open>
  The scenario of three digits and five attempts against a transport that always answers
  400: five requests, for 000 to 004 in this order, and no hit among the records.
\<close>

lemma adaptive_attack_scenario:
  "fst (adaptive_attack (always_status 400 ''invalid otp'') eng0 5 3 io0) = Returns ()
   \<and> map otp_of_request
        (sent (snd (snd (adaptive_attack (always_status 400 ''invalid otp'') eng0 5 3 io0))))
       = [''000'', ''001'', ''002'', ''003'', ''004'']
   \<and> filter is_hit
        (history (fst (snd (adaptive_attack (always_status 400 ''invalid otp'') eng0 5 3 io0))))
       = []"
  by code_simp

text \<open>
  An attack that returns normally has recorded no hit: every run in which a verification
  answers with a hit leaves the loop by the \<^verbatim>\<open>NameError\<close>.
\<close>

lemma adaptive_attack_returns_without_hit:
  "fst (adaptive_attack post self max_attempts d s) = Returns () \<Longrightarrow>
   \<exists>new. history (fst (snd (adaptive_attack post self max_attempts d s))) = history self @ new
        \<and> filter is_hit new = []"
  unfolding adaptive_attack_def by (rule adaptive_loop_returns_without_hit)


text \<open>
  Claim C3, at its failing input. The engine is fresh and its classifier was never fitted;
  \<^verbatim>\<open>ai_attack\<close> with one attempt allowed over one digit passes its guard, submits the
  candidate 0 and records the answer.
\<close>

theorem ai_attack_unfitted_still_attempts:
  "classifier eng0 = Unfitted
   \<and> fst (ai_attack class_shares (always_status 400 ''invalid otp'') eng0 1 1 io0) = Returns ()
   \<and> map otp_of_request
        (sent (snd (snd (ai_attack class_shares (always_status 400 ''invalid otp'') eng0 1 1 io0))))
       = [''0'']
   \<and> length (history (fst (snd
        (ai_attack class_shares (always_status 400 ''invalid otp'') eng0 1 1 io0)))) = 1"
  by code_simp

text \<open>
  Claim C5, at its failing input. The first answer is a hit (status 200), and both attack
  loops leave by \<^verbatim>\<open>NameError\<close>: the name \<^verbatim>\<open>Fore\<close> is not bound in the module.
\<close>

theorem attack_hit_raises_NameError:
  "fst (adaptive_attack (always_status 200 ''ok'') eng0 5 3 io0) = Raises (mk_NameError ''Fore'')
   \<and> fst (ai_attack class_shares (always_status 200 ''ok'') eng0 5 1 io0)
       = Raises (mk_NameError ''Fore'')"
  by code_simp

text \<open>
  Claim C7, at its failing input. With one digit the candidate space is 0 to 9; with
  eleven attempts allowed and no hit, \<^verbatim>\<open>adaptive_attack\<close> submits the two-digit string 10
  as its eleventh candidate.
\<close>

theorem adaptive_attack_leaves_candidate_space:
  "fst (adaptive_attack (always_status 400 ''invalid otp'') eng0 11 1 io0) = Returns ()
   \<and> length (sent (snd (snd
         (adaptive_attack (always_status 400 ''invalid otp'') eng0 11 1 io0)))) = 11
   \<and> otp_of_request (last (sent (snd (snd
         (adaptive_attack (always_status 400 ''invalid otp'') eng0 11 1 io0))))) = ''10''"
  by code_simp

section \<open>Properties of the proxy monitor\<close>

lemma monitor_loop_step_up:
  assumes "running self" and "\<not> stop_called t" and "probed t = Connects"
  shows "monitor_loop self (t # rest) s =
           (case monitor_loop self rest s of
              (st, m, evs, s') \<Rightarrow> (st, m, Probe True # Sleep (check_interval self) # evs, s'))"
  apply (subst monitor_loop.simps(2))
  apply (simp only: assms Let_def if_False if_True proxy_alive_def probe.case prod.case simp_thms)
  done

lemma monitor_loop_while_up:
  assumes "running self" and "\<forall>t \<in> set pre. \<not> stop_called t \<and> probed t = Connects"
  shows "monitor_loop self (pre @ rest) s =
           (case monitor_loop self rest s of
              (st, m, evs, s') \<Rightarrow>
                (st, m,
                 concat (map (\<lambda>t. [Probe True, Sleep (check_interval self)]) pre) @ evs, s'))"
  using assms
proof (induction pre)
  case Nil
  then show ?case
    by (cases "monitor_loop self rest s") (simp only: append_Nil list.map concat.simps prod.case)
next
  case (Cons a pre)
  have a: "\<not> stop_called a" "probed a = Connects" using Cons.prems(2) by simp_all
  have ih: "monitor_loop self (pre @ rest) s =
           (case monitor_loop self rest s of
              (st, m, evs, s') \<Rightarrow>
                (st, m,
                 concat (map (\<lambda>t. [Probe True, Sleep (check_interval self)]) pre) @ evs, s'))"
    by (rule Cons.IH) (use Cons.prems in simp_all)
  obtain st m evs s' where r: "monitor_loop self rest s = (st, m, evs, s')"
    by (cases "monitor_loop self rest s") auto
  have "monitor_loop self ((a # pre) @ rest) s = monitor_loop self (a # (pre @ rest)) s"
    by (simp only: append_Cons)
  also have "\<dots> = (case monitor_loop self (pre @ rest) s of
              (st, m, evs, s') \<Rightarrow> (st, m, Probe True # Sleep (check_interval self) # evs, s'))"
    by (rule monitor_loop_step_up [OF Cons.prems(1) a])
  finally show ?case
    by (simp only: ih r prod.case list.map concat.simps append_Cons append_Nil)
qed

lemma monitor_loop_down:
  assumes "running self" and "\<not> force self" and "\<not> stop_called t"
      and "probed t \<noteq> Connects"
  shows "\<exists>s'. monitor_loop self (t # later) s =
           (LoopEnded, self\<lparr>alive := False\<rparr>, [Probe False, AliveSetFalse], s')"
proof -
  have ok: "\<not> fst (proxy_alive (proxy_url self) (probed t) s)"
    using assms(4) by (cases "probed t") (simp_all add: proxy_alive_def)
  obtain b s1 where p: "proxy_alive (proxy_url self) (probed t) s = (b, s1)"
    by (cases "proxy_alive (proxy_url self) (probed t) s") auto
  with ok have b: "\<not> b" by simp
  have f: "\<not> force (self\<lparr>alive := False\<rparr>)" using assms(2) by simp
  show ?thesis
    apply (subst monitor_loop.simps(2))
    apply (simp only: assms(1) assms(3) Let_def if_False if_True p prod.case b f simp_thms)
    apply blast
    done
qed

text \<open>
  Claim C8. The monitor is not in force mode and runs. As long as \<^verbatim>\<open>stop()\<close> has not been
  called and the probes connect, it probes and sleeps. At the first probe that fails, it
  sets \<^verbatim>\<open>alive\<close> to false, once, and the loop ends: the trace holds one probe per tick up
  to and including the failing one and none after it, whatever the later ticks would have
  shown. An engine that holds this monitor then posts every request with no proxies.
\<close>

theorem monitor_first_failure_is_final:
  assumes "\<not> force self" and "running self"
      and "\<forall>t \<in> set pre. \<not> stop_called t \<and> probed t = Connects"
      and "\<not> stop_called t" and "probed t \<noteq> Connects"
      and "monitor_loop self (pre @ t # later) s = (st, self', evs, s')"
      and "proxy_monitor e = Some self'"
  shows "st = LoopEnded
       \<and> self' = self\<lparr>alive := False\<rparr>
       \<and> evs = concat (map (\<lambda>t. [Probe True, Sleep (check_interval self)]) pre)
                 @ [Probe False, AliveSetFalse]
       \<and> length (filter (\<lambda>ev. ev = AliveSetFalse) evs) = 1
       \<and> length (filter is_probe evs) = length pre + 1
       \<and> sent (snd (snd (verify post e code s0))) = sent s0 @ [verify_request e code]
       \<and> req_proxies (verify_request e code) = None"
proof -
  obtain s1 where down: "monitor_loop self (t # later) s =
      (LoopEnded, self\<lparr>alive := False\<rparr>, [Probe False, AliveSetFalse], s1)"
    using monitor_loop_down [OF assms(2) assms(1) assms(4) assms(5)] by blast
  have run: "monitor_loop self (pre @ t # later) s =
      (LoopEnded, self\<lparr>alive := False\<rparr>,
       concat (map (\<lambda>t. [Probe True, Sleep (check_interval self)]) pre)
         @ [Probe False, AliveSetFalse], s1)"
    by (simp only: monitor_loop_while_up [OF assms(2) assms(3)] down prod.case)
  from run assms(6) have st: "st = LoopEnded" and m: "self' = self\<lparr>alive := False\<rparr>"
    and evs: "evs = concat (map (\<lambda>t. [Probe True, Sleep (check_interval self)]) pre)
                 @ [Probe False, AliveSetFalse]"
    by simp_all
  have c1: "length (filter (\<lambda>ev. ev = AliveSetFalse) evs) = 1"
    unfolding evs by (induction pre) simp_all
  have c2: "length (filter is_probe evs) = length pre + 1"
    unfolding evs by (induction pre) (simp_all add: is_probe_def)
  have v1: "sent (snd (snd (verify post e code s0))) = sent s0 @ [verify_request e code]"
    by (simp add: verify_def Let_def log_to_def split: post_result.splits)
  have v2: "req_proxies (verify_request e code) = None"
    using assms(7) m by (simp add: verify_request_def)
  show ?thesis using st m evs c1 c2 v1 v2 by simp
qed

text \<open>
  Witness for C8: two good probes, a refused connection, and a proxy that would be back at
  the next tick. The engine is configured with the proxy, and its request carries none.
\<close>

theorem monitor_first_failure_is_final_witness:
  "monitor_loop mon0 ([tick_up, tick_up] @ tick_down # [tick_up]) io0 =
     (LoopEnded, mon0\<lparr>alive := False\<rparr>,
      [Probe True, Sleep 5, Probe True, Sleep 5, Probe False, AliveSetFalse],
      log_to WARNING
        ''Proxy http://127.0.0.1:8080 went down. Switching to direct connection.'' io0)
   \<and> proxies (eng_proxied (mon0\<lparr>alive := False\<rparr>))
       = Some [(''http'', ''http://127.0.0.1:8080''), (''https'', ''http://127.0.0.1:8080'')]
   \<and> sent (snd (snd (verify (always_status 400 ''no'')
                        (eng_proxied (mon0\<lparr>alive := False\<rparr>)) ''000'' io0)))
       = [verify_request (eng_proxied (mon0\<lparr>alive := False\<rparr>)) ''000'']
   \<and> req_proxies (verify_request (eng_proxied (mon0\<lparr>alive := False\<rparr>)) ''000'') = None"
proof -
  have h1: "\<not> force mon0" and h2: "running mon0" by (simp_all add: mon0_def)
  have h3: "\<forall>t \<in> set [tick_up, tick_up]. \<not> stop_called t \<and> probed t = Connects"
    by (simp add: tick_up_def)
  have h4: "\<not> stop_called tick_down" and h5: "probed tick_down \<noteq> Connects"
    by (simp_all add: tick_down_def)
  have h6: "monitor_loop mon0 ([tick_up, tick_up] @ tick_down # [tick_up]) io0 =
     (LoopEnded, mon0\<lparr>alive := False\<rparr>,
      [Probe True, Sleep 5, Probe True, Sleep 5, Probe False, AliveSetFalse],
      log_to WARNING
        ''Proxy http://127.0.0.1:8080 went down. Switching to direct connection.'' io0)"
    by (simp add: mon0_def tick_up_def tick_down_def proxy_alive_def)
  have h7: "proxy_monitor (eng_proxied (mon0\<lparr>alive := False\<rparr>)) = Some (mon0\<lparr>alive := False\<rparr>)"
    by (simp add: eng_proxied_def init_def)
  have p: "proxies (eng_proxied (mon0\<lparr>alive := False\<rparr>))
       = Some [(''http'', ''http://127.0.0.1:8080''), (''https'', ''http://127.0.0.1:8080'')]"
    by (simp add: eng_proxied_def init_def)
  show ?thesis
    using monitor_first_failure_is_final
        [OF h1 h2 h3 h4 h5 h6 h7, of "always_status 400 ''no''" "''000''" io0]
      h6 p
    by (simp add: io0_def)
qed

section \<open>Properties of persistence\<close>

lemma attempt_roundtrip: "attempt_of_json (json_of_attempt r) = Some r"
  by (cases "rec_time r") (simp_all add: json_of_attempt_def json_of_num_def)

lemma attempts_roundtrip: "attempts_of_json (map json_of_attempt h) = Some h"
  by (induction h) (simp_all add: attempt_roundtrip)

text \<open>
  Claim C9. When the state file can be opened for writing and for reading, saving a
  history and loading it, into the same engine or into any engine of the same state file,
  yields that history: the same records, field for field, in the same order.
\<close>

theorem save_then_load:
  assumes "write_error fs (state_file self) = None"
      and "read_error fs (state_file self) = None"
      and "state_file other = state_file self"
  shows "fst (save_state self fs s) = Returns ()
       \<and> load_state other (fst (snd (save_state self fs s))) s2
           = (Returns (Loaded (other\<lparr>history := history self\<rparr>)), s2)
       \<and> load_state self (fst (snd (save_state self fs s))) s2 = (Returns (Loaded self), s2)"
  using assms
  by (simp add: save_state_def load_state_def history_of_json_def json_dump_def
        attempts_roundtrip)

text \<open>
  Witness for C9: the engine with one recorded attempt saves to the empty file system, and
  a fresh engine for the same user loads that one record.
\<close>

theorem save_then_load_witness:
  "history eng1 = [failed_attempt]
   \<and> history eng0 = []
   \<and> load_state eng0 (fst (snd (save_state eng1 fs0 io0))) io0
       = (Returns (Loaded (eng0\<lparr>history := [failed_attempt]\<rparr>)), io0)"
proof -
  have h1: "write_error fs0 (state_file eng1) = None"
    and h2: "read_error fs0 (state_file eng1) = None"
    by (simp_all add: fs0_def)
  have h3: "state_file eng0 = state_file eng1" by (simp add: eng1_def)
  have h: "history eng1 = [failed_attempt]" "history eng0 = []"
    by (simp_all add: eng1_def eng0_def init_def)
  show ?thesis using save_then_load [OF h1 h2 h3, of io0 io0] h by simp
qed

text \<open>
  Claim C10, as amended. With the state file missing, or holding text that is not JSON,
  \<^verbatim>\<open>load_state\<close> does not raise; it logs a warning for the missing file and an error for
  the malformed one, and leaves the engine, its history included, as it was. The history
  is empty when the engine is freshly constructed.
\<close>

theorem load_state_fail_open:
  "(read_error fs (state_file self) = None \<and> files fs (state_file self) = None \<longrightarrow>
      load_state self fs s
        = (Returns (Loaded self),
           log_to WARNING (''No saved state found at '' @ state_file self @ ''.'') s))
   \<and> (read_error fs (state_file self) = None
        \<and> files fs (state_file self) = Some (NotJson m) \<longrightarrow>
      load_state self fs s
        = (Returns (Loaded self),
           log_to ERROR (''Error decoding JSON from '' @ state_file self @ '': '' @ m
             @ ''. File might be corrupted.'') s))
   \<and> history (init url uid path burp dbg mon) = []"
  by (simp add: load_state_def load_failed_def mk_FileNotFoundError_def mk_JSONDecodeError_def
        isinstance_def init_def)

text \<open>Witness for C10: a fresh engine, with no file and with a file cut short.\<close>

theorem load_state_fail_open_witness:
  "load_state eng0 fs0 io0
     = (Returns (Loaded eng0),
        log_to WARNING (''No saved state found at '' @ state_file eng0 @ ''.'') io0)
   \<and> load_state eng0 (fs0\<lparr>files := [state_file eng0 \<mapsto> NotJson ''Expecting value'']\<rparr>) io0
     = (Returns (Loaded eng0),
        log_to ERROR (''Error decoding JSON from '' @ state_file eng0
          @ '': Expecting value. File might be corrupted.'') io0)
   \<and> history eng0 = []"
  using load_state_fail_open [where fs = fs0 and self = eng0 and s = io0]
    load_state_fail_open
      [where fs = "fs0\<lparr>files := [state_file eng0 \<mapsto> NotJson ''Expecting value'']\<rparr>"
         and self = eng0 and s = io0 and m = "''Expecting value''"
         and url = "''https://t.test''" and uid = "''u1''" and path = "''/auth/verify-otp''"
         and burp = None and dbg = True and mon = None]
  by (simp add: fs0_def eng0_def)

text \<open>
  Counterexample to C10 as stated: the engine holds one record, the state file is
  missing, and after \<^verbatim>\<open>load_state\<close> the engine still holds that record; its history is
  not empty.
\<close>

theorem load_state_keeps_history:
  "load_state eng1 fs0 io0
     = (Returns (Loaded eng1),
        log_to WARNING ''No saved state found at ai_otp_state_u1.json.'' io0)
   \<and> history eng1 = [failed_attempt]"
  by (simp add: load_state_def load_failed_def fs0_def eng1_def eng0_def init_def
        mk_FileNotFoundError_def isinstance_def)

end
